theory Spec2Isabelle
  imports Complex_Main "HOL-Library.Word"
begin

section \<open>Data model\<close>

text \<open>
  The repository holds two programs: \<^verbatim>\<open>app.py\<close>, which answers from one PDF (the
  single-document program, names prefixed \<open>app_\<close> below), and \<^verbatim>\<open>app2-multi-pdf.py\<close>,
  which answers from three (the multi-document program, names prefixed \<open>app2_\<close>).
  Functions that are the same in both are modelled once.

  A Python \<open>str\<close> is a sequence of Unicode code points and \<open>len\<close> counts code points,
  so a string is modelled as the list of its code points. The message literals of the
  two programs are mostly Chinese text; they are given below by their code points.
  The text of a model response (\<open>response.text\<close>) is a string or \<open>None\<close>, so the
  answer of \<open>process_with_gemini\<close> and the text of a reply are of type
  \<open>pystr option\<close>. Calls of \<open>logger\<close> have no effect on what the programs send and are
  left out.
\<close>

type_synonym pystr = "nat list"

type_synonym bytes = "8 word list"

text \<open>
  Exceptions. Only the classes the two programs tell apart get a constructor of their
  own: \<open>httpx.TimeoutException\<close> (caught in \<open>process_with_gemini\<close> of the multi-document
  program), \<open>InvalidSignatureError\<close> (caught in \<open>callback\<close>), the \<open>IndexError\<close> of
  \<open>chunks[0]\<close> and the \<open>TypeError\<close> of \<open>len(None)\<close>. Every class is a subclass of
  \<open>Exception\<close>. \<open>str\<close> is Python's \<open>str(e)\<close>.
\<close>

datatype exn_class =
  TimeoutException | InvalidSignatureError | IndexError | TypeError | OtherException

datatype exn = Exn (class_of: exn_class) (str: pystr)

text \<open>The items of the \<open>contents\<close> list handed to \<open>client.models.generate_content\<close>.\<close>

datatype content = UploadedFile nat | PartFromBytes bytes pystr | QueryText pystr

text \<open>
  Every call that leaves the process is recorded, in order, with its arguments and its
  outcome: \<open>line_bot_api.push_message\<close>, \<open>line_bot_api.reply_message\<close>, the Drive download
  of \<open>get_pdf_from_drive\<close>, \<open>genai.Client\<close>, \<open>client.files.upload\<close> and
  \<open>client.models.generate_content\<close>. The text of a reply is \<open>Some txt\<close> for
  \<open>TextSendMessage(text=txt)\<close> with a string and \<open>None\<close> for \<open>TextSendMessage(text=None)\<close>,
  which the single-document program sends when the answer has no text. The outcome of the
  model call is the \<open>response.text\<close> it leads to.
\<close>

datatype event =
    PushMessage pystr pystr "exn option"
  | ReplyMessage pystr "pystr option" "exn option"
  | GetMedia "pystr option" "exn + bytes"
  | GenaiClient "exn option"
  | FilesUpload bytes pystr "exn + nat"
  | GenerateContent pystr "content list" "exn + pystr option"

fun is_push :: "event \<Rightarrow> bool" where
  "is_push (PushMessage _ _ _) = True"
| "is_push _ = False"

fun is_reply :: "event \<Rightarrow> bool" where
  "is_reply (ReplyMessage _ _ _) = True"
| "is_reply _ = False"

fun is_inference :: "event \<Rightarrow> bool" where
  "is_inference (GenaiClient _) = True"
| "is_inference (FilesUpload _ _ _) = True"
| "is_inference (GenerateContent _ _ _) = True"
| "is_inference _ = False"

text \<open>The event a text-message handler receives: \<open>event.source.user_id\<close>,
  \<open>event.reply_token\<close> and \<open>event.message.text\<close>.\<close>

record message_event =
  user_id :: pystr
  reply_token :: pystr
  message_text :: pystr

datatype webhook_event = TextMessageEvent message_event | OtherEvent

text \<open>
  The vendor services are parameters of the model. Each answers a call from the history
  of the calls made so far and the call's arguments: \<open>None\<close> or \<open>Inr\<close> when the call
  returns, \<open>Some e\<close> or \<open>Inl e\<close> when it raises \<open>e\<close>. The SDK's parser behind
  \<open>handler.handle(body, signature)\<close> has two steps: \<open>validate_signature\<close> tells whether
  the signature of the header verifies for the body, and \<open>parse_events\<close> decodes the
  body into the events of the payload, or raises.
\<close>

record env =
  push_message :: "event list \<Rightarrow> pystr \<Rightarrow> pystr \<Rightarrow> exn option"
  reply_message :: "event list \<Rightarrow> pystr \<Rightarrow> pystr option \<Rightarrow> exn option"
  drive_download :: "event list \<Rightarrow> pystr option \<Rightarrow> exn + bytes"
  genai_client :: "event list \<Rightarrow> exn option"
  files_upload :: "event list \<Rightarrow> bytes \<Rightarrow> pystr \<Rightarrow> exn + nat"
  generate_content :: "event list \<Rightarrow> pystr \<Rightarrow> content list \<Rightarrow> exn + pystr option"
  validate_signature :: "pystr \<Rightarrow> pystr \<Rightarrow> bool"
  parse_events :: "pystr \<Rightarrow> exn + webhook_event list"

text \<open>The three Drive identifiers of the multi-document program, read with
  \<open>os.environ.get\<close> (\<open>None\<close> when the variable is not set).\<close>

record app2_config =
  pdf1_id :: "pystr option"
  pdf2_id :: "pystr option"
  pdf3_id :: "pystr option"

text \<open>How a block of a handler ends: it raised, it executed \<open>return\<close>, or it ran
  through with a value.\<close>

datatype 'a flow = Raised exn | Returned | Continue 'a


section \<open>String literals\<close>

text \<open>The text of the acknowledgment push (line 178 of the multi-document program,
  line 145 of the single-document one); 15 code points.\<close>

definition PROCESSING_MSG :: pystr where
  "PROCESSING_MSG = [27491, 22312, 34389, 29702, 24744, 30340, 26597, 35426, 65292,
     35531, 31245, 20505, 46, 46, 46]"

text \<open>The reply sent for an empty PDF (line 193 of the multi-document program).\<close>

definition EMPTY_PDF_MSG :: pystr where
  "EMPTY_PDF_MSG = [28961, 27861, 34389, 29702, 24744, 30340, 35531, 27714, 65306,
     26377, 80, 68, 70, 25991, 20214, 28858, 31354, 12290]"

text \<open>The string returned on \<open>httpx.TimeoutException\<close> (line 146 of the multi-document
  program).\<close>

definition TIMEOUT_MSG :: pystr where
  "TIMEOUT_MSG = [34389, 29702, 24744, 30340, 26597, 35426, 26178, 30332, 29983, 36229,
     26178, 65292, 35531, 22039, 35430, 31777, 21270, 24744, 30340, 21839, 38988, 25110,
     31245, 24460, 20877, 35430, 12290]"

text \<open>The prefix of the f-string returned by \<open>process_with_gemini\<close> on an exception.\<close>

definition QUERY_ERROR_PREFIX :: pystr where
  "QUERY_ERROR_PREFIX = [34389, 29702, 24744, 30340, 26597, 35426, 26178, 30332, 29983,
     37679, 35492, 58, 32]"

text \<open>The prefix of the f-string replied by the \<open>except\<close> clause of
  \<open>handle_text_message\<close>.\<close>

definition REQUEST_ERROR_PREFIX :: pystr where
  "REQUEST_ERROR_PREFIX = [34389, 29702, 24744, 30340, 35531, 27714, 26178, 30332, 29983,
     37679, 35492, 58, 32]"


definition GEMINI_MODEL :: pystr where
  "GEMINI_MODEL = [103, 101, 109, 105, 110, 105, 45, 50, 46, 48, 45, 102, 108, 97, 115, 104]"

definition PDF_MIME :: pystr where
  "PDF_MIME = [97, 112, 112, 108, 105, 99, 97, 116, 105, 111, 110, 47, 112, 100, 102]"

definition INDEX_ERROR_TEXT :: pystr where
  "INDEX_ERROR_TEXT = [108, 105, 115, 116, 32, 105, 110, 100, 101, 120, 32, 111, 117, 116,
     32, 111, 102, 32, 114, 97, 110, 103, 101]"

definition NONE_LEN_TEXT :: pystr where
  "NONE_LEN_TEXT = [111, 98, 106, 101, 99, 116, 32, 111, 102, 32, 116, 121, 112, 101, 32, 39,
     78, 111, 110, 101, 84, 121, 112, 101, 39, 32, 104, 97, 115, 32, 110, 111, 32, 108, 101,
     110, 40, 41]"


text \<open>The exception of \<open>len(gemini_response)\<close> (line 203 of the multi-document program)
  when the answer is \<open>None\<close>.\<close>

definition none_len_error :: exn where
  "none_len_error = Exn TypeError NONE_LEN_TEXT"

section \<open>The chunker\<close>

text \<open>\<open>xs[i:j]\<close> for \<open>0 \<le> i\<close>, \<open>0 \<le> j\<close>: a slice never raises, it is cut at the end
  of the list.\<close>

definition py_slice :: "'a list \<Rightarrow> nat \<Rightarrow> nat \<Rightarrow> 'a list" where
  "py_slice xs i j = take (j - i) (drop i xs)"

text \<open>\<open>range(i, stop, step)\<close> for a positive step (the program's step is the
  constant 4000).\<close>

function py_range :: "nat \<Rightarrow> nat \<Rightarrow> nat \<Rightarrow> nat list" where
  "py_range i stop step =
     (if 0 < step \<and> i < stop then i # py_range (i + step) stop step else [])"
  by pat_completeness auto
termination
  by (relation "measure (\<lambda>(i, stop, step). stop - i)") auto

declare py_range.simps [simp del]

text \<open>Line 205:
  \<^verbatim>\<open>chunks = [gemini_response[i:i+4000] for i in range(0, len(gemini_response), 4000)]\<close>\<close>

definition chunks_of :: "pystr \<Rightarrow> pystr list" where
  "chunks_of R = map (\<lambda>i. py_slice R i (i + 4000)) (py_range 0 (length R) 4000)"

section \<open>Calls to the vendor services\<close>

text \<open>Each call asks the service for its outcome and appends the event to the trace.\<close>

definition line_push_message :: "env \<Rightarrow> event list \<Rightarrow> pystr \<Rightarrow> pystr \<Rightarrow> exn option \<times> event list" where
  "line_push_message env tr to txt =
     (let r = push_message env tr to txt in (r, tr @ [PushMessage to txt r]))"

definition line_reply_message ::
  "env \<Rightarrow> event list \<Rightarrow> pystr \<Rightarrow> pystr option \<Rightarrow> exn option \<times> event list" where
  "line_reply_message env tr token txt =
     (let r = reply_message env tr token txt in (r, tr @ [ReplyMessage token txt r]))"

text \<open>
  \<open>get_pdf_from_drive(file_id)\<close>, the same in both programs but for the type of the
  result (a \<open>BytesIO\<close> rewound to position 0 in the multi-document program, its bytes in
  the single-document one): the body builds the Drive client and downloads the file with
  the vendor's downloader; the \<open>except\<close> clause logs and re-raises, so the function
  raises exactly what the download raises.
\<close>

definition get_pdf_from_drive :: "env \<Rightarrow> event list \<Rightarrow> pystr option \<Rightarrow> (exn + bytes) \<times> event list" where
  "get_pdf_from_drive env tr file_id =
     (let r = drive_download env tr file_id in (r, tr @ [GetMedia file_id r]))"

definition initialize_gemini_client :: "env \<Rightarrow> event list \<Rightarrow> exn option \<times> event list" where
  "initialize_gemini_client env tr =
     (let r = genai_client env tr in (r, tr @ [GenaiClient r]))"

definition client_files_upload :: "env \<Rightarrow> event list \<Rightarrow> bytes \<Rightarrow> (exn + nat) \<times> event list" where
  "client_files_upload env tr pdf =
     (let r = files_upload env tr pdf PDF_MIME in (r, tr @ [FilesUpload pdf PDF_MIME r]))"

definition client_generate_content ::
  "env \<Rightarrow> event list \<Rightarrow> content list \<Rightarrow> (exn + pystr option) \<times> event list" where
  "client_generate_content env tr contents =
     (let r = generate_content env tr GEMINI_MODEL contents
      in (r, tr @ [GenerateContent GEMINI_MODEL contents r]))"

section \<open>The multi-document program\<close>

text \<open>
  \<open>process_with_gemini(pdf_data1, pdf_data2, pdf_data3, user_query)\<close>, lines 90 to 153.
  The client and the three uploads are outside the inner \<open>try\<close>. The inner \<open>try\<close>
  holds the model call alone: it returns \<open>response.text\<close>, returns the fixed text on
  \<open>httpx.TimeoutException\<close> and re-raises anything else; the outer \<open>except Exception\<close>
  turns every exception of the body into the returned string. The function never raises.
\<close>

definition app2_process_with_gemini ::
  "env \<Rightarrow> event list \<Rightarrow> bytes \<Rightarrow> bytes \<Rightarrow> bytes \<Rightarrow> pystr \<Rightarrow> pystr option \<times> event list" where
  "app2_process_with_gemini env tr pdf_data1 pdf_data2 pdf_data3 user_query =
     (case initialize_gemini_client env tr of
        (Some e, l0) \<Rightarrow> (Some (QUERY_ERROR_PREFIX @ str e), l0)
      | (None, l0) \<Rightarrow>
     (case client_files_upload env l0 pdf_data1 of
        (Inl e, l1) \<Rightarrow> (Some (QUERY_ERROR_PREFIX @ str e), l1)
      | (Inr pdf_file1, l1) \<Rightarrow>
     (case client_files_upload env l1 pdf_data2 of
        (Inl e, l2) \<Rightarrow> (Some (QUERY_ERROR_PREFIX @ str e), l2)
      | (Inr pdf_file2, l2) \<Rightarrow>
     (case client_files_upload env l2 pdf_data3 of
        (Inl e, l3) \<Rightarrow> (Some (QUERY_ERROR_PREFIX @ str e), l3)
      | (Inr pdf_file3, l3) \<Rightarrow>
     (case client_generate_content env l3
             [UploadedFile pdf_file1, UploadedFile pdf_file2, UploadedFile pdf_file3,
              QueryText user_query] of
        (Inr response_text, l4) \<Rightarrow> (response_text, l4)
      | (Inl e, l4) \<Rightarrow>
          if class_of e = TimeoutException then (Some TIMEOUT_MSG, l4)
          else (Some (QUERY_ERROR_PREFIX @ str e), l4))))))"

text \<open>Lines 214 to 218: \<^verbatim>\<open>for chunk in chunks[1:]: line_bot_api.push_message(user_id, ...)\<close>.
  A push that raises ends the loop.\<close>

fun push_each :: "env \<Rightarrow> event list \<Rightarrow> pystr \<Rightarrow> pystr list \<Rightarrow> exn option \<times> event list" where
  "push_each env tr to [] = (None, tr)"
| "push_each env tr to (chunk # rest) =
     (case line_push_message env tr to chunk of
        (Some e, l) \<Rightarrow> (Some e, l)
      | (None, l) \<Rightarrow> push_each env l to rest)"

text \<open>Lines 203 to 223, the delivery of the answer. \<open>len(gemini_response)\<close> raises
  \<open>TypeError\<close> when the answer is \<open>None\<close>, before any call is made; \<open>chunks[0]\<close> raises
  \<open>IndexError\<close> on an empty list.\<close>

definition app2_send_response ::
  "env \<Rightarrow> event list \<Rightarrow> message_event \<Rightarrow> pystr option \<Rightarrow> exn option \<times> event list" where
  "app2_send_response env tr ev gemini_response =
     (case gemini_response of
        None \<Rightarrow> (Some none_len_error, tr)
      | Some response \<Rightarrow>
          if length response > 5000 then
            (case chunks_of response of
               [] \<Rightarrow> (Some (Exn IndexError INDEX_ERROR_TEXT), tr)
             | chunk0 # rest \<Rightarrow>
                 (case line_reply_message env tr (reply_token ev) (Some chunk0) of
                    (Some e, l) \<Rightarrow> (Some e, l)
                  | (None, l) \<Rightarrow> push_each env l (user_id ev) rest))
          else line_reply_message env tr (reply_token ev) (Some response))"

text \<open>Lines 175 to 199: the acknowledgment push, the three downloads, the check for an
  empty PDF (which replies and returns) and the inference.\<close>

definition app2_obtain_response ::
  "app2_config \<Rightarrow> env \<Rightarrow> event list \<Rightarrow> message_event \<Rightarrow> pystr option flow \<times> event list" where
  "app2_obtain_response cfg env tr ev =
     (case line_push_message env tr (user_id ev) PROCESSING_MSG of
        (Some e, l0) \<Rightarrow> (Raised e, l0)
      | (None, l0) \<Rightarrow>
     (case get_pdf_from_drive env l0 (pdf1_id cfg) of
        (Inl e, l1) \<Rightarrow> (Raised e, l1)
      | (Inr pdf_data1, l1) \<Rightarrow>
     (case get_pdf_from_drive env l1 (pdf2_id cfg) of
        (Inl e, l2) \<Rightarrow> (Raised e, l2)
      | (Inr pdf_data2, l2) \<Rightarrow>
     (case get_pdf_from_drive env l2 (pdf3_id cfg) of
        (Inl e, l3) \<Rightarrow> (Raised e, l3)
      | (Inr pdf_data3, l3) \<Rightarrow>
          if length pdf_data1 = 0 \<or> length pdf_data2 = 0 \<or> length pdf_data3 = 0 then
            (case line_reply_message env l3 (reply_token ev) (Some EMPTY_PDF_MSG) of
               (Some e, l4) \<Rightarrow> (Raised e, l4)
             | (None, l4) \<Rightarrow> (Returned, l4))
          else
            (case app2_process_with_gemini env l3 pdf_data1 pdf_data2 pdf_data3 (message_text ev) of
               (gemini_response, l4) \<Rightarrow> (Continue gemini_response, l4))))))"

text \<open>The \<open>except Exception as e\<close> clause of \<open>handle_text_message\<close>, the same in both
  programs: one reply with the prefix and \<open>str(e)\<close>. It is not inside a \<open>try\<close>, so
  an exception of this reply leaves the handler.\<close>

definition reply_error :: "env \<Rightarrow> event list \<Rightarrow> message_event \<Rightarrow> exn \<Rightarrow> exn option \<times> event list" where
  "reply_error env tr ev e =
     line_reply_message env tr (reply_token ev) (Some (REQUEST_ERROR_PREFIX @ str e))"

text \<open>\<open>handle_text_message(event)\<close>, lines 169 to 230. The result is \<open>None\<close> when the
  handler returns and \<open>Some e\<close> when \<open>e\<close> leaves it.\<close>

definition app2_handle_text_message ::
  "app2_config \<Rightarrow> env \<Rightarrow> event list \<Rightarrow> message_event \<Rightarrow> exn option \<times> event list" where
  "app2_handle_text_message cfg env tr ev =
     (case app2_obtain_response cfg env tr ev of
        (Raised e, l) \<Rightarrow> reply_error env l ev e
      | (Returned, l) \<Rightarrow> (None, l)
      | (Continue gemini_response, l) \<Rightarrow>
          (case app2_send_response env l ev gemini_response of
             (Some e, l') \<Rightarrow> reply_error env l' ev e
           | (None, l') \<Rightarrow> (None, l')))"

section \<open>The single-document program\<close>

text \<open>\<open>process_with_gemini(pdf_data, user_query)\<close>, lines 87 to 117: one \<open>try\<close> with
  one \<open>except Exception\<close>; there is no clause for a timeout.\<close>

definition app_process_with_gemini ::
  "env \<Rightarrow> event list \<Rightarrow> bytes \<Rightarrow> pystr \<Rightarrow> pystr option \<times> event list" where
  "app_process_with_gemini env tr pdf_data user_query =
     (case initialize_gemini_client env tr of
        (Some e, l0) \<Rightarrow> (Some (QUERY_ERROR_PREFIX @ str e), l0)
      | (None, l0) \<Rightarrow>
     (case client_generate_content env l0 [PartFromBytes pdf_data PDF_MIME, QueryText user_query] of
        (Inr response_text, l1) \<Rightarrow> (response_text, l1)
      | (Inl e, l1) \<Rightarrow> (Some (QUERY_ERROR_PREFIX @ str e), l1)))"

text \<open>Lines 139 to 149: the download, the acknowledgment push and the inference.\<close>

definition app_obtain_response ::
  "pystr option \<Rightarrow> env \<Rightarrow> event list \<Rightarrow> message_event \<Rightarrow> pystr option flow \<times> event list" where
  "app_obtain_response pdf_id env tr ev =
     (case get_pdf_from_drive env tr pdf_id of
        (Inl e, l0) \<Rightarrow> (Raised e, l0)
      | (Inr pdf_data, l0) \<Rightarrow>
     (case line_push_message env l0 (user_id ev) PROCESSING_MSG of
        (Some e, l1) \<Rightarrow> (Raised e, l1)
      | (None, l1) \<Rightarrow>
     (case app_process_with_gemini env l1 pdf_data (message_text ev) of
        (gemini_response, l2) \<Rightarrow> (Continue gemini_response, l2))))"

text \<open>\<open>handle_text_message(event)\<close>, lines 133 to 162. The answer goes into
  \<open>TextSendMessage(text=gemini_response)\<close> as it is, with no test of its length or of its
  being a string.\<close>

definition app_handle_text_message ::
  "pystr option \<Rightarrow> env \<Rightarrow> event list \<Rightarrow> message_event \<Rightarrow> exn option \<times> event list" where
  "app_handle_text_message pdf_id env tr ev =
     (case app_obtain_response pdf_id env tr ev of
        (Raised e, l) \<Rightarrow> reply_error env l ev e
      | (Returned, l) \<Rightarrow> (None, l)
      | (Continue gemini_response, l) \<Rightarrow>
          (case line_reply_message env l (reply_token ev) gemini_response of
             (Some e, l') \<Rightarrow> reply_error env l' ev e
           | (None, l') \<Rightarrow> (None, l')))"

section \<open>The webhook\<close>



text \<open>The request: the \<open>X-Line-Signature\<close> header, if present, and the body.\<close>

record request =
  x_line_signature :: "pystr option"
  body :: pystr




text \<open>The events a run appended to the trace it started from.\<close>

definition emitted :: "event list \<Rightarrow> 'a \<times> event list \<Rightarrow> event list" where
  "emitted tr run = drop (length tr) (snd run)"

section \<open>The delivery plan\<close>

text \<open>
  The chunks of an answer as the handler forms them (lines 203 to 223): the list of line
  205 above the threshold 5000, the answer itself otherwise.
\<close>

definition answer_chunks :: "pystr \<Rightarrow> pystr list" where
  "answer_chunks R = (if 5000 < length R then chunks_of R else [R])"

text \<open>
  The delivery plan in the words of the specification: chunk 0 goes out by a reply with
  the reply token, every later chunk by a push to the user, in order, and every call
  returns.
\<close>

definition delivery_plan :: "message_event \<Rightarrow> pystr list \<Rightarrow> event list" where
  "delivery_plan ev cs =
     (case cs of
        [] \<Rightarrow> []
      | chunk0 # rest \<Rightarrow>
          ReplyMessage (reply_token ev) (Some chunk0) None
            # map (\<lambda>c. PushMessage (user_id ev) c None) rest)"

section \<open>Reading a trace\<close>

fun is_fetch :: "event \<Rightarrow> bool" where
  "is_fetch (GetMedia _ _) = True"
| "is_fetch _ = False"

text \<open>The exception a recorded call raised, if it raised.\<close>

fun failure :: "event \<Rightarrow> exn option" where
  "failure (PushMessage _ _ r) = r"
| "failure (ReplyMessage _ _ r) = r"
| "failure (GetMedia _ r) = (case r of Inl e \<Rightarrow> Some e | Inr _ \<Rightarrow> None)"
| "failure (GenaiClient r) = r"
| "failure (FilesUpload _ _ r) = (case r of Inl e \<Rightarrow> Some e | Inr _ \<Rightarrow> None)"
| "failure (GenerateContent _ _ r) = (case r of Inl e \<Rightarrow> Some e | Inr _ \<Rightarrow> None)"

text \<open>The exception a recorded call raised into the \<open>try\<close> block of
  \<open>handle_text_message\<close>: the calls of \<open>process_with_gemini\<close> raise into that function's
  own \<open>try\<close>, every other call raises into the handler's (or, for the reply of the
  \<open>except\<close> clause, out of the handler).\<close>

definition aborting :: "event \<Rightarrow> exn option" where
  "aborting x = (if is_inference x then None else failure x)"

text \<open>No call of the trace raised into the handler's \<open>try\<close> block; the last call of
  the trace raised \<open>e\<close> into it and no earlier one did.\<close>

definition no_abort :: "event list \<Rightarrow> bool" where
  "no_abort E = list_all (\<lambda>x. aborting x = None) E"


section \<open>Sample requests and services\<close>

definition sample_event :: message_event where
  "sample_event = \<lparr>user_id = [85], reply_token = [116], message_text = [63]\<rparr>"

definition sample_config :: app2_config where
  "sample_config = \<lparr>pdf1_id = Some [49], pdf2_id = Some [50], pdf3_id = Some [51]\<rparr>"

definition sample_request :: request where
  "sample_request = \<lparr>x_line_signature = Some [115], body = [123, 125]\<rparr>"

definition sample_exn :: exn where
  "sample_exn = Exn OtherException [98, 111, 111, 109]"

definition sample_timeout :: exn where
  "sample_timeout = Exn TimeoutException [116, 105, 109, 101, 100, 32, 111, 117, 116]"

text \<open>Services that never raise: every download is the one byte \<open>0x25\<close>, the model
  answers the text \<open>R\<close>, every signature verifies and the webhook payload is one text
  message.\<close>

definition env_ok :: "pystr \<Rightarrow> env" where
  "env_ok R =
     \<lparr>push_message = (\<lambda>h to txt. None),
      reply_message = (\<lambda>h token txt. None),
      drive_download = (\<lambda>h file_id. Inr [37]),
      genai_client = (\<lambda>h. None),
      files_upload = (\<lambda>h pdf mime. Inr 1),
      generate_content = (\<lambda>h model contents. Inr (Some R)),
      validate_signature = (\<lambda>body signature. True),
      parse_events = (\<lambda>body. Inr [TextMessageEvent sample_event])\<rparr>"

text \<open>The trace of the multi-document handler on the sample request with these
  services, up to the answer \<open>R\<close> of the model.\<close>

definition sample_prefix :: "pystr \<Rightarrow> event list" where
  "sample_prefix R =
     [PushMessage [85] PROCESSING_MSG None,
      GetMedia (Some [49]) (Inr [37]), GetMedia (Some [50]) (Inr [37]),
      GetMedia (Some [51]) (Inr [37]),
      GenaiClient None,
      FilesUpload [37] PDF_MIME (Inr 1), FilesUpload [37] PDF_MIME (Inr 1),
      FilesUpload [37] PDF_MIME (Inr 1),
      GenerateContent GEMINI_MODEL
        [UploadedFile 1, UploadedFile 1, UploadedFile 1, QueryText [63]] (Inr (Some R))]"

text \<open>The same for the single-document handler with the Drive identifier \<open>Some [49]\<close>.\<close>

definition app_sample_prefix :: "pystr \<Rightarrow> event list" where
  "app_sample_prefix R =
     [GetMedia (Some [49]) (Inr [37]),
      PushMessage [85] PROCESSING_MSG None,
      GenaiClient None,
      GenerateContent GEMINI_MODEL [PartFromBytes [37] PDF_MIME, QueryText [63]]
        (Inr (Some R))]"

text \<open>The second document cannot be downloaded.\<close>

definition env_fetch_fails :: env where
  "env_fetch_fails =
     (env_ok [104, 105])\<lparr>drive_download :=
        (\<lambda>h file_id. if file_id = Some [50] then Inl sample_exn else Inr [37])\<rparr>"

text \<open>The second document has no bytes.\<close>

definition env_empty_pdf :: env where
  "env_empty_pdf =
     (env_ok [104, 105])\<lparr>drive_download :=
        (\<lambda>h file_id. if file_id = Some [50] then Inr [] else Inr [37])\<rparr>"

text \<open>The model call times out.\<close>

definition env_timeout :: env where
  "env_timeout = (env_ok [])\<lparr>generate_content := (\<lambda>h model contents. Inl sample_timeout)\<rparr>"

text \<open>The reply token can be used once, and every push but the acknowledgment raises.\<close>

definition env_push_fails :: "pystr \<Rightarrow> env" where
  "env_push_fails R =
     (env_ok R)\<lparr>push_message := (\<lambda>h to txt. if txt = PROCESSING_MSG then None else Some sample_exn),
               reply_message := (\<lambda>h token txt. if list_ex is_reply h then Some sample_exn else None)\<rparr>"

text \<open>Every reply raises.\<close>

definition env_reply_fails :: env where
  "env_reply_fails = (env_ok [104, 105])\<lparr>reply_message := (\<lambda>h token txt. Some sample_exn)\<rparr>"

text \<open>The signature does not verify.\<close>

definition env_bad_signature :: env where
  "env_bad_signature = (env_ok [])\<lparr>validate_signature := (\<lambda>body signature. False)\<rparr>"

text \<open>The signature verifies and the decoder of the payload raises.\<close>

definition env_parse_fails :: env where
  "env_parse_fails = (env_ok [])\<lparr>parse_events := (\<lambda>body. Inl sample_exn)\<rparr>"

text \<open>The first reply of a request raises and every later one returns: the reply of the
  answer raises, the error reply of the \<open>except\<close> clause returns.\<close>

definition env_first_reply_fails :: env where
  "env_first_reply_fails =
     (env_ok [104, 105])\<lparr>reply_message :=
        (\<lambda>h token txt. if list_ex is_reply h then None else Some sample_exn)\<rparr>"

text \<open>The second document has no bytes and every reply raises.\<close>

definition env_empty_pdf_reply_fails :: env where
  "env_empty_pdf_reply_fails =
     env_empty_pdf\<lparr>reply_message := (\<lambda>h token txt. Some sample_exn)\<rparr>"

text \<open>The second document has no bytes, the first reply of a request raises and every
  later one returns.\<close>

definition env_empty_pdf_first_reply_fails :: env where
  "env_empty_pdf_first_reply_fails =
     env_empty_pdf\<lparr>reply_message :=
        (\<lambda>h token txt. if list_ex is_reply h then None else Some sample_exn)\<rparr>"

text \<open>The upload of a document times out.\<close>

definition env_upload_timeout :: env where
  "env_upload_timeout = (env_ok [])\<lparr>files_upload := (\<lambda>h pdf mime. Inl sample_timeout)\<rparr>"

text \<open>The model call returns a response without text, and every reply raises.\<close>

definition env_no_text :: env where
  "env_no_text =
     (env_ok [])\<lparr>generate_content := (\<lambda>h model contents. Inr None),
                reply_message := (\<lambda>h token txt. Some sample_exn)\<rparr>"

section \<open>Properties of the chunker\<close>

lemma ceil_div_step:
  fixes c i n :: nat
  assumes "0 < c" "i < n"
  shows "(n - i + (c - 1)) div c = Suc ((n - (i + c) + (c - 1)) div c)"
proof -
  define m where "m = n - (i + c) + (c - 1)"
  show ?thesis
  proof (cases "c \<le> n - i")
    case True
    then have "n - i + (c - 1) = m + c" unfolding m_def by arith
    then have "(n - i + (c - 1)) div c = (m + c) div c" by (simp only:)
    also have "\<dots> = Suc (m div c)" using assms(1) by simp
    finally show ?thesis unfolding m_def .
  next
    case False
    then have a: "m = c - 1" unfolding m_def by arith
    have b: "c \<le> n - i + (c - 1)" using assms by arith
    have d: "n - i + (c - 1) < c + c" using False assms by arith
    have "(n - i + (c - 1)) div c = 1"
      using b d assms(1) by (intro div_nat_eqI) simp_all
    moreover have "m div c = 0" using assms(1) a by simp
    ultimately show ?thesis unfolding m_def by (simp only: One_nat_def)
  qed
qed

lemma py_range_eq:
  "0 < c \<Longrightarrow> py_range i n c = map (\<lambda>k. i + k * c) [0..<(n - i + (c - 1)) div c]"
proof (induction i n c rule: py_range.induct)
  case (1 i stop step)
  show ?case
  proof (cases "i < stop")
    case True
    define m where "m = (stop - (i + step) + (step - 1)) div step"
    have unf: "py_range i stop step = i # py_range (i + step) stop step"
      using True 1(2) by (subst py_range.simps) simp
    have ih: "py_range (i + step) stop step = map (\<lambda>k. i + step + k * step) [0..<m]"
      unfolding m_def using 1 True by simp
    have len: "(stop - i + (step - 1)) div step = Suc m"
      unfolding m_def by (rule ceil_div_step [OF 1(2) True])
    have "map (\<lambda>k. i + k * step) [0..<Suc m] = i # map (\<lambda>k. i + step + k * step) [0..<m]"
      by (simp add: upt_conv_Cons map_Suc_upt [symmetric] del: upt_Suc)
    then show ?thesis unfolding unf ih len by simp
  next
    case False
    then have "stop - i = 0" by simp
    then show ?thesis using False 1(2) by (simp add: py_range.simps)
  qed
qed

lemma concat_slices:
  "0 < c \<Longrightarrow> i \<le> length xs \<Longrightarrow> n = length xs \<Longrightarrow>
     concat (map (\<lambda>j. py_slice xs j (j + c)) (py_range i n c)) = drop i xs"
proof (induction i n c rule: py_range.induct)
  case (1 i stop step)
  show ?case
  proof (cases "i < stop")
    case True
    have unf: "py_range i stop step = i # py_range (i + step) stop step"
      using True 1(2) by (subst py_range.simps) simp
    show ?thesis
    proof (cases "i + step \<le> length xs")
      case le: True
      have "concat (map (\<lambda>j. py_slice xs j (j + step)) (py_range (i + step) stop step))
              = drop (i + step) xs"
        using 1 True le by simp
      moreover have "take step (drop i xs) @ drop (i + step) xs = drop i xs"
        by (metis add.commute append_take_drop_id drop_drop)
      ultimately show ?thesis unfolding unf by (simp add: py_slice_def)
    next
      case gt: False
      then have e: "py_range (i + step) stop step = []"
        using 1(4) by (simp add: py_range.simps)
      show ?thesis unfolding unf e using gt by (simp add: py_slice_def)
    qed
  next
    case False
    then show ?thesis using 1 by (simp add: py_range.simps)
  qed
qed

lemma chunks_of_eq:
  "chunks_of R = map (\<lambda>k. py_slice R (4000 * k) (4000 * k + 4000)) [0..<(length R + 3999) div 4000]"
  by (simp add: chunks_of_def py_range_eq mult.commute)

lemma concat_chunks_of: "concat (chunks_of R) = R"
  unfolding chunks_of_def using concat_slices [of 4000 0 R "length R"] by simp

lemma length_chunks_of: "length (chunks_of R) = (length R + 3999) div 4000"
  by (simp add: chunks_of_eq)

lemma nth_chunks_of:
  "k < length (chunks_of R) \<Longrightarrow> chunks_of R ! k = py_slice R (4000 * k) (4000 * k + 4000)"
  by (simp add: chunks_of_eq)

section \<open>Shape of the traces\<close>

lemmas call_defs = line_push_message_def line_reply_message_def get_pdf_from_drive_def
  initialize_gemini_client_def client_files_upload_def client_generate_content_def Let_def

lemma app2_process_with_gemini_trace:
  "app2_process_with_gemini env tr d1 d2 d3 q = (R, l) \<Longrightarrow>
     \<exists>new. l = tr @ new \<and> list_all is_inference new"
  unfolding app2_process_with_gemini_def call_defs
  by (auto split: option.splits sum.splits if_splits)

lemma app_process_with_gemini_trace:
  "app_process_with_gemini env tr d q = (R, l) \<Longrightarrow>
     \<exists>new. l = tr @ new \<and> list_all is_inference new"
  unfolding app_process_with_gemini_def call_defs
  by (auto split: option.splits sum.splits if_splits)

lemma push_each_trace:
  "push_each env tr to cs = (r, l) \<Longrightarrow> \<exists>new. l = tr @ new \<and> list_all is_push new"
proof (induction cs arbitrary: tr)
  case Nil
  then show ?case by simp
next
  case (Cons c cs)
  show ?case
  proof (cases "push_message env tr to c")
    case None
    then have "push_each env (tr @ [PushMessage to c None]) to cs = (r, l)"
      using Cons.prems by (simp add: call_defs)
    from Cons.IH [OF this] show ?thesis by auto
  next
    case (Some e)
    then show ?thesis using Cons.prems by (auto simp: call_defs)
  qed
qed

lemma app2_send_response_trace:
  "app2_send_response env tr ev R = (r, l) \<Longrightarrow>
     \<exists>new. l = tr @ new \<and> list_all (\<lambda>x. is_reply x \<or> is_push x) new"
  unfolding app2_send_response_def call_defs
  by (auto split: option.splits list.splits if_splits dest!: push_each_trace
           simp: list_all_iff)

lemmas sample_defs = sample_event_def sample_config_def sample_request_def sample_exn_def
  sample_timeout_def env_ok_def env_fetch_fails_def env_empty_pdf_def env_timeout_def
  env_push_fails_def env_reply_fails_def env_bad_signature_def sample_prefix_def
  app_sample_prefix_def env_parse_fails_def env_first_reply_fails_def
  env_empty_pdf_reply_fails_def env_empty_pdf_first_reply_fails_def env_upload_timeout_def
  env_no_text_def

lemma reply_error_eq:
  "reply_error env l ev e =
     (reply_message env l (reply_token ev) (Some (REQUEST_ERROR_PREFIX @ str e)),
      l @ [ReplyMessage (reply_token ev) (Some (REQUEST_ERROR_PREFIX @ str e))
             (reply_message env l (reply_token ev) (Some (REQUEST_ERROR_PREFIX @ str e)))])"
  by (simp add: reply_error_def call_defs)

lemma push_each_cases:
  "push_each env tr to cs = (r, l) \<Longrightarrow>
     \<exists>new. l = tr @ new \<and>
       (case r of
          None \<Rightarrow> new = map (\<lambda>c. PushMessage to c None) cs
        | Some e \<Rightarrow> \<exists>k<length cs.
            new = map (\<lambda>c. PushMessage to c None) (take k cs) @ [PushMessage to (cs ! k) (Some e)])"
proof (induction cs arbitrary: tr)
  case Nil
  then show ?case by auto
next
  case (Cons c cs)
  show ?case
  proof (cases "push_message env tr to c")
    case None
    then have "push_each env (tr @ [PushMessage to c None]) to cs = (r, l)"
      using Cons.prems by (simp add: call_defs)
    from Cons.IH [OF this] obtain new where
      l: "l = (tr @ [PushMessage to c None]) @ new" and
      new: "case r of None \<Rightarrow> new = map (\<lambda>c. PushMessage to c None) cs
            | Some e \<Rightarrow> \<exists>k<length cs. new = map (\<lambda>c. PushMessage to c None) (take k cs)
                  @ [PushMessage to (cs ! k) (Some e)]"
      by blast
    show ?thesis
    proof (cases r)
      case None
      then show ?thesis using l new by simp
    next
      case (Some e)
      then obtain k where "k < length cs"
        "new = map (\<lambda>c. PushMessage to c None) (take k cs) @ [PushMessage to (cs ! k) (Some e)]"
        using new by auto
      then have "Suc k < length (c # cs)"
        "PushMessage to c None # new = map (\<lambda>c. PushMessage to c None) (take (Suc k) (c # cs))
            @ [PushMessage to ((c # cs) ! Suc k) (Some e)]"
        by simp_all
      then show ?thesis using l Some by (intro exI [of _ "PushMessage to c None # new"]) auto
    qed
  next
    case (Some e)
    then have "r = Some e" "l = tr @ [PushMessage to c (Some e)]"
      using Cons.prems by (auto simp: call_defs)
    then show ?thesis by (intro exI [of _ "[PushMessage to c (Some e)]"]) auto
  qed
qed

lemma app2_obtain_response_cases:
  assumes "app2_obtain_response cfg env tr ev = (F, l)"
  shows "(\<exists>e. F = Raised e \<and> l = tr @ [PushMessage (user_id ev) PROCESSING_MSG (Some e)])
    \<or> (\<exists>e. F = Raised e \<and> l = tr @ [PushMessage (user_id ev) PROCESSING_MSG None,
            GetMedia (pdf1_id cfg) (Inl e)])
    \<or> (\<exists>e d1. F = Raised e \<and> l = tr @ [PushMessage (user_id ev) PROCESSING_MSG None,
            GetMedia (pdf1_id cfg) (Inr d1), GetMedia (pdf2_id cfg) (Inl e)])
    \<or> (\<exists>e d1 d2. F = Raised e \<and> l = tr @ [PushMessage (user_id ev) PROCESSING_MSG None,
            GetMedia (pdf1_id cfg) (Inr d1), GetMedia (pdf2_id cfg) (Inr d2),
            GetMedia (pdf3_id cfg) (Inl e)])
    \<or> (\<exists>d1 d2 d3 r. (d1 = [] \<or> d2 = [] \<or> d3 = []) \<and>
            F = (case r of None \<Rightarrow> Returned | Some e \<Rightarrow> Raised e) \<and>
            l = tr @ [PushMessage (user_id ev) PROCESSING_MSG None,
            GetMedia (pdf1_id cfg) (Inr d1), GetMedia (pdf2_id cfg) (Inr d2),
            GetMedia (pdf3_id cfg) (Inr d3), ReplyMessage (reply_token ev) (Some EMPTY_PDF_MSG) r])
    \<or> (\<exists>d1 d2 d3 R inf. d1 \<noteq> [] \<and> d2 \<noteq> [] \<and> d3 \<noteq> [] \<and> F = Continue R \<and>
            list_all is_inference inf \<and>
            l = tr @ [PushMessage (user_id ev) PROCESSING_MSG None,
            GetMedia (pdf1_id cfg) (Inr d1), GetMedia (pdf2_id cfg) (Inr d2),
            GetMedia (pdf3_id cfg) (Inr d3)] @ inf)"
  using assms unfolding app2_obtain_response_def call_defs
  by (auto split: option.splits sum.splits if_splits prod.splits
           dest!: app2_process_with_gemini_trace)

lemma chunks_of_nonempty: "5000 < length R \<Longrightarrow> chunks_of R \<noteq> []"
proof -
  assume "5000 < length R"
  then have "0 < (length R + 3999) div 4000" by arith
  then have "0 < length (chunks_of R)" by (simp only: length_chunks_of)
  then show ?thesis by auto
qed

lemma answer_chunks_nonempty: "answer_chunks R \<noteq> []"
proof (cases "5000 < length R")
  case True
  then show ?thesis by (simp add: answer_chunks_def chunks_of_nonempty)
next
  case False
  then show ?thesis by (simp add: answer_chunks_def)
qed

lemma app2_send_response_cases:
  assumes "app2_send_response env l ev (Some R) = (r, l')"
  shows "\<exists>new. l' = l @ new \<and>
       (case r of
          None \<Rightarrow> new = delivery_plan ev (answer_chunks R)
        | Some e \<Rightarrow> \<exists>k x. k < length (answer_chunks R) \<and>
            new = take k (delivery_plan ev (answer_chunks R)) @ [x] \<and>
            failure x = Some e \<and> (is_reply x \<or> is_push x))"
proof (cases "5000 < length R")
  case False
  then have ac: "answer_chunks R = [R]" by (simp add: answer_chunks_def)
  have l': "l' = l @ [ReplyMessage (reply_token ev) (Some R) r]"
    using assms False by (auto simp: app2_send_response_def call_defs)
  show ?thesis
  proof (cases r)
    case None
    then show ?thesis using l' unfolding ac by (simp add: delivery_plan_def)
  next
    case (Some e)
    then show ?thesis using l' unfolding ac
      by (intro exI [of _ "[ReplyMessage (reply_token ev) (Some R) r]"]) (auto intro!: exI [of _ 0])
  qed
next
  case True
  then have ac: "answer_chunks R = chunks_of R" by (simp add: answer_chunks_def)
  obtain c0 rest where cs: "chunks_of R = c0 # rest"
    using chunks_of_nonempty [OF True] by (cases "chunks_of R") auto
  have plan: "delivery_plan ev (chunks_of R) =
      ReplyMessage (reply_token ev) (Some c0) None # map (\<lambda>c. PushMessage (user_id ev) c None) rest"
    by (simp add: delivery_plan_def cs)
  show ?thesis
  proof (cases "reply_message env l (reply_token ev) (Some c0)")
    case (Some e)
    then have "r = Some e" "l' = l @ [ReplyMessage (reply_token ev) (Some c0) (Some e)]"
      using assms True cs by (auto simp: app2_send_response_def call_defs)
    then show ?thesis unfolding ac
      by (auto simp: cs intro!: exI [of _ 0])
  next
    case None
    then have "push_each env (l @ [ReplyMessage (reply_token ev) (Some c0) None]) (user_id ev) rest = (r, l')"
      using assms True cs by (auto simp: app2_send_response_def call_defs)
    from push_each_cases [OF this] obtain new where
      l': "l' = (l @ [ReplyMessage (reply_token ev) (Some c0) None]) @ new" and
      new: "case r of None \<Rightarrow> new = map (\<lambda>c. PushMessage (user_id ev) c None) rest
            | Some e \<Rightarrow> \<exists>k<length rest. new = map (\<lambda>c. PushMessage (user_id ev) c None) (take k rest)
                  @ [PushMessage (user_id ev) (rest ! k) (Some e)]"
      by blast
    show ?thesis
    proof (cases r)
      case None
      then show ?thesis using l' new unfolding ac plan by simp
    next
      case (Some e)
      then obtain k where k: "k < length rest"
        "new = map (\<lambda>c. PushMessage (user_id ev) c None) (take k rest)
                  @ [PushMessage (user_id ev) (rest ! k) (Some e)]"
        using new by auto
      have "l' = l @ take (Suc k) (delivery_plan ev (chunks_of R)) @ [PushMessage (user_id ev) (rest ! k) (Some e)]"
        unfolding l' plan k by (simp add: take_map)
      moreover have "Suc k < length (chunks_of R)" using k cs by simp
      ultimately show ?thesis unfolding ac using Some
        by (intro exI [of _ "take (Suc k) (delivery_plan ev (chunks_of R)) @ [PushMessage (user_id ev) (rest ! k) (Some e)]"])
           (auto intro!: exI [of _ "Suc k"])
    qed
  qed
qed

lemma emitted_append [simp]: "emitted l (r, l @ new) = new"
  by (simp add: emitted_def)

lemma app2_handle_after_response:
  assumes "app2_obtain_response cfg env tr ev = (Continue answer, l1)"
  shows "app2_handle_text_message cfg env tr ev =
     (case app2_send_response env l1 ev answer of
        (Some e, l') \<Rightarrow> reply_error env l' ev e
      | (None, l') \<Rightarrow> (None, l'))"
  using assms by (simp add: app2_handle_text_message_def)

lemma chunks_of_9000:
  "chunks_of (replicate 9000 97) = [replicate 4000 97, replicate 4000 97, replicate 1000 97]"
  by (simp add: chunks_of_eq py_slice_def upt_conv_Cons)

lemma chunk_is_not_ack: "replicate 4000 (97::nat) \<noteq> PROCESSING_MSG"
proof
  assume "replicate 4000 (97::nat) = PROCESSING_MSG"
  then have "length (replicate 4000 (97::nat)) = length PROCESSING_MSG" by (simp only:)
  then show False by (simp add: PROCESSING_MSG_def)
qed

lemmas app2_defs = app2_handle_text_message_def app2_obtain_response_def
  app2_process_with_gemini_def app2_send_response_def reply_error_eq call_defs emitted_def

lemma fetch_is_not_other: "is_fetch x \<Longrightarrow> \<not> is_reply x \<and> \<not> is_push x \<and> \<not> is_inference x"
  by (cases x) auto

lemma app2_handle_cases:
  assumes "app2_obtain_response cfg env tr ev = (F, l)"
  shows "\<exists>tail. snd (app2_handle_text_message cfg env tr ev) = l @ tail \<and>
       list_all (\<lambda>x. is_reply x \<or> is_push x) tail \<and>
       (case F of
          Returned \<Rightarrow> tail = [] \<and> fst (app2_handle_text_message cfg env tr ev) = None
        | Raised e \<Rightarrow> tail = [ReplyMessage (reply_token ev) (Some (REQUEST_ERROR_PREFIX @ str e))
                                 (fst (app2_handle_text_message cfg env tr ev))]
        | Continue R \<Rightarrow> True)"
proof (cases F)
  case (Raised e)
  then show ?thesis using assms
    by (simp add: app2_handle_text_message_def reply_error_eq)
next
  case Returned
  then show ?thesis using assms by (simp add: app2_handle_text_message_def)
next
  case (Continue R)
  obtain r l' where send: "app2_send_response env l ev R = (r, l')" by force
  from app2_send_response_trace [OF send] obtain new where
    new: "l' = l @ new" "list_all (\<lambda>x. is_reply x \<or> is_push x) new" by blast
  show ?thesis
  proof (cases r)
    case None
    then show ?thesis using assms Continue send new
      by (simp add: app2_handle_text_message_def)
  next
    case (Some e)
    then show ?thesis using assms Continue send new
      by (simp add: app2_handle_text_message_def reply_error_eq)
  qed
qed

lemmas app_defs = app_handle_text_message_def app_obtain_response_def
  app_process_with_gemini_def reply_error_eq call_defs emitted_def

lemma app_obtain_response_cases:
  assumes "app_obtain_response pdf_id env tr ev = (F, l)"
  shows "(\<exists>e. F = Raised e \<and> l = tr @ [GetMedia pdf_id (Inl e)])
    \<or> (\<exists>e d. F = Raised e \<and> l = tr @ [GetMedia pdf_id (Inr d),
            PushMessage (user_id ev) PROCESSING_MSG (Some e)])
    \<or> (\<exists>d R inf. F = Continue R \<and> list_all is_inference inf \<and>
            l = tr @ [GetMedia pdf_id (Inr d), PushMessage (user_id ev) PROCESSING_MSG None] @ inf)"
  using assms unfolding app_obtain_response_def call_defs
  by (auto split: option.splits sum.splits if_splits prod.splits
           dest!: app_process_with_gemini_trace)

lemma app_handle_cases:
  assumes "app_obtain_response pdf_id env tr ev = (F, l)"
  shows "\<exists>tail. snd (app_handle_text_message pdf_id env tr ev) = l @ tail \<and>
       list_all is_reply tail \<and>
       (case F of
          Returned \<Rightarrow> tail = [] \<and> fst (app_handle_text_message pdf_id env tr ev) = None
        | Raised e \<Rightarrow> tail = [ReplyMessage (reply_token ev) (Some (REQUEST_ERROR_PREFIX @ str e))
                                 (fst (app_handle_text_message pdf_id env tr ev))]
        | Continue R \<Rightarrow> True)"
proof (cases F)
  case (Raised e)
  then show ?thesis using assms
    by (simp add: app_handle_text_message_def reply_error_eq)
next
  case Returned
  then show ?thesis using assms by (simp add: app_handle_text_message_def)
next
  case (Continue R)
  show ?thesis
  proof (cases "reply_message env l (reply_token ev) R")
    case None
    then show ?thesis using assms Continue
      by (simp add: app_handle_text_message_def call_defs)
  next
    case (Some e)
    then show ?thesis using assms Continue
      by (simp add: app_handle_text_message_def reply_error_eq call_defs)
  qed
qed

lemma app_handle_after_response:
  assumes "app_obtain_response pdf_id env tr ev = (Continue answer, l1)"
  shows "app_handle_text_message pdf_id env tr ev =
     (case line_reply_message env l1 (reply_token ev) answer of
        (Some e, l') \<Rightarrow> reply_error env l' ev e
      | (None, l') \<Rightarrow> (None, l'))"
  using assms by (simp add: app_handle_text_message_def)

lemma timeout_msg_short: "length TIMEOUT_MSG \<le> 5000"
  by (simp add: TIMEOUT_MSG_def)

lemma app2_obtain_response_timeout:
  assumes "app2_obtain_response cfg env tr ev = (F, l)"
    and "GenerateContent m cs (Inl e) \<in> set (drop (length tr) l)"
    and "class_of e = TimeoutException"
  shows "F = Continue (Some TIMEOUT_MSG)"
  using assms unfolding app2_obtain_response_def app2_process_with_gemini_def call_defs
  by (auto split: option.splits sum.splits if_splits)




section \<open>Exceptions in the traces\<close>

lemma no_abort_simps [simp]:
  "no_abort []"
  "no_abort (x # xs) = (aborting x = None \<and> no_abort xs)"
  "no_abort (xs @ ys) = (no_abort xs \<and> no_abort ys)"
  by (auto simp: no_abort_def)







lemma aborting_simps [simp]:
  "aborting (PushMessage to txt r) = r"
  "aborting (ReplyMessage token answer r) = r"
  "aborting (GetMedia f (Inl e)) = Some e"
  "aborting (GetMedia f (Inr d)) = None"
  by (simp_all add: aborting_def)













section \<open>Claims about the chunker\<close>

text \<open>
  Claim C1. For every response \<open>R\<close> longer than 5000 characters, the list built at line
  205 has \<open>ceil(len(R)/4000)\<close> elements (stated on natural numbers and with the real
  ceiling), its \<open>k\<close>-th element is the slice of \<open>R\<close> from \<open>4000 k\<close> to \<open>4000 k + 4000\<close>
  (contiguous, in the order of the text), every element but the last has length 4000, the
  last has length \<open>len(R) - 4000 (n - 1)\<close> for \<open>n\<close> elements, and the concatenation of the
  elements is \<open>R\<close>.
\<close>

theorem chunks_of_partition:
  assumes "5000 < length R"
  shows "length (chunks_of R) = (length R + 3999) div 4000
       \<and> int (length (chunks_of R)) = \<lceil>real (length R) / 4000\<rceil>
       \<and> (\<forall>k < length (chunks_of R). chunks_of R ! k = py_slice R (4000 * k) (4000 * k + 4000))
       \<and> (\<forall>k. Suc k < length (chunks_of R) \<longrightarrow> length (chunks_of R ! k) = 4000)
       \<and> length (last (chunks_of R)) = length R - 4000 * (length (chunks_of R) - 1)
       \<and> concat (chunks_of R) = R"
proof -
  define n where "n = length (chunks_of R)"
  have n: "n = (length R + 3999) div 4000"
    unfolding n_def by (rule length_chunks_of)
  have pos: "0 < n" using assms n by arith
  have lo: "4000 * (n - 1) < length R" using assms n by arith
  have hi: "length R \<le> 4000 * n" using n by arith
  have ceil: "int n = \<lceil>real (length R) / 4000\<rceil>"
    unfolding n by linarith
  have nth: "chunks_of R ! k = py_slice R (4000 * k) (4000 * k + 4000)" if "k < n" for k
    using that unfolding n_def by (rule nth_chunks_of)
  have full: "length (chunks_of R ! k) = 4000" if "Suc k < n" for k
  proof -
    have "4000 * k + 4000 \<le> 4000 * (n - 1)" using that by arith
    then have "4000 * k + 4000 \<le> length R" using lo by arith
    moreover have "k < n" using that by simp
    ultimately show ?thesis by (simp add: nth py_slice_def)
  qed
  have ne: "chunks_of R \<noteq> []" using pos unfolding n_def by auto
  have "last (chunks_of R) = chunks_of R ! (n - 1)"
    unfolding n_def by (rule last_conv_nth [OF ne])
  also have "\<dots> = py_slice R (4000 * (n - 1)) (4000 * (n - 1) + 4000)"
    using pos by (simp add: nth)
  finally have "length (last (chunks_of R)) = length R - 4000 * (n - 1)"
    using lo hi pos by (simp add: py_slice_def)
  then show ?thesis
    using n ceil nth full concat_chunks_of [of R] unfolding n_def by blast
qed

theorem chunks_of_partition_witness:
  "5000 < length (replicate 9000 (97::nat))
   \<and> length (chunks_of (replicate 9000 97)) = 3
   \<and> length (chunks_of (replicate 9000 97) ! 0) = 4000
   \<and> length (chunks_of (replicate 9000 97) ! 1) = 4000
   \<and> length (last (chunks_of (replicate 9000 97))) = 1000
   \<and> concat (chunks_of (replicate 9000 97)) = replicate 9000 97"
proof -
  have h: "5000 < length (replicate 9000 (97::nat))" by simp
  show ?thesis using h chunks_of_partition [OF h] by (simp add: py_slice_def)
qed

section \<open>Claims about the delivery of the answer\<close>

text \<open>
  Claim C2. When the answer \<open>R\<close> of the inference has at most 5000 characters (4500, for
  instance, which is more than the chunk size 4000), the multi-document handler delivers
  it as one chunk equal to \<open>R\<close>, by a reply with the reply token, and pushes nothing for
  the answer: after the inference the trace holds the reply of \<open>R\<close> alone, or, when that
  reply raises, the reply of \<open>R\<close> and the error reply of the \<open>except\<close> clause.
\<close>

theorem app2_short_response_single_reply:
  assumes "app2_obtain_response cfg env tr ev = (Continue (Some R), l1)"
    and "length R \<le> 5000"
  shows "\<not> list_ex is_push (emitted l1 (app2_handle_text_message cfg env tr ev)) \<and>
       ((emitted l1 (app2_handle_text_message cfg env tr ev) = [ReplyMessage (reply_token ev) (Some R) None]
          \<and> fst (app2_handle_text_message cfg env tr ev) = None)
       \<or> (\<exists>e r. emitted l1 (app2_handle_text_message cfg env tr ev) =
              [ReplyMessage (reply_token ev) (Some R) (Some e),
               ReplyMessage (reply_token ev) (Some (REQUEST_ERROR_PREFIX @ str e)) r]
          \<and> fst (app2_handle_text_message cfg env tr ev) = r))"
proof (cases "reply_message env l1 (reply_token ev) (Some R)")
  case None
  then show ?thesis
    using assms(2)
    by (simp add: app2_handle_after_response [OF assms(1)] app2_send_response_def call_defs)
next
  case (Some e)
  then show ?thesis
    using assms(2)
    by (simp add: app2_handle_after_response [OF assms(1)] app2_send_response_def call_defs
          reply_error_eq)
qed

theorem app2_short_response_single_reply_witness:
  "app2_obtain_response sample_config (env_ok (replicate 4500 97)) [] sample_event
     = (Continue (Some (replicate 4500 97)), sample_prefix (replicate 4500 97))
   \<and> length (replicate 4500 (97::nat)) \<le> 5000
   \<and> emitted (sample_prefix (replicate 4500 97))
        (app2_handle_text_message sample_config (env_ok (replicate 4500 97)) [] sample_event)
      = [ReplyMessage [116] (Some (replicate 4500 97)) None]"
proof -
  have h1: "app2_obtain_response sample_config (env_ok (replicate 4500 97)) [] sample_event
     = (Continue (Some (replicate 4500 97)), sample_prefix (replicate 4500 97))"
    by (simp add: app2_defs sample_defs)
  have h2: "length (replicate 4500 (97::nat)) \<le> 5000" by simp
  show ?thesis
    using h1 h2 app2_short_response_single_reply [OF h1 h2]
    by (simp add: app2_defs sample_defs)
qed

text \<open>
  Claim C3, as amended. When no call of the delivery raises, the events after the inference
  are the delivery plan of the chunks of the answer: chunk 0 by a reply with the reply
  token, chunks 1 to \<open>n - 1\<close> by one push each to the user, in order; that is one reply and
  \<open>n - 1\<close> pushes, for \<open>n \<ge> 1\<close> chunks, and the handler returns.
\<close>

theorem app2_delivery_follows_plan:
  assumes "app2_obtain_response cfg env tr ev = (Continue (Some R), l1)"
    and "\<forall>x \<in> set (emitted l1 (app2_handle_text_message cfg env tr ev)). failure x = None"
  shows "emitted l1 (app2_handle_text_message cfg env tr ev) = delivery_plan ev (answer_chunks R)
       \<and> answer_chunks R \<noteq> []
       \<and> fst (app2_handle_text_message cfg env tr ev) = None
       \<and> length (filter is_reply (emitted l1 (app2_handle_text_message cfg env tr ev))) = 1
       \<and> length (filter is_push (emitted l1 (app2_handle_text_message cfg env tr ev)))
            = length (answer_chunks R) - 1"
proof -
  obtain r l' where send: "app2_send_response env l1 ev (Some R) = (r, l')" by force
  from app2_send_response_cases [OF send] obtain new where
    l': "l' = l1 @ new" and
    new: "case r of
          None \<Rightarrow> new = delivery_plan ev (answer_chunks R)
        | Some e \<Rightarrow> \<exists>k x. k < length (answer_chunks R) \<and>
            new = take k (delivery_plan ev (answer_chunks R)) @ [x] \<and>
            failure x = Some e \<and> (is_reply x \<or> is_push x)"
    by blast
  have run: "app2_handle_text_message cfg env tr ev =
      (case r of Some e \<Rightarrow> reply_error env l' ev e | None \<Rightarrow> (None, l'))"
    by (simp add: app2_handle_after_response [OF assms(1)] send)
  have r: "r = None"
  proof (cases r)
    case (Some e)
    then obtain k x where x: "new = take k (delivery_plan ev (answer_chunks R)) @ [x]"
      "failure x = Some e"
      using new by auto
    have "x \<in> set (emitted l1 (app2_handle_text_message cfg env tr ev))"
      unfolding run Some l' x by (simp add: reply_error_eq emitted_def)
    then show ?thesis using assms(2) x(2) by auto
  qed simp
  obtain c0 rest where cs: "answer_chunks R = c0 # rest"
    using answer_chunks_nonempty [of R] by (cases "answer_chunks R") auto
  have e: "emitted l1 (app2_handle_text_message cfg env tr ev) = delivery_plan ev (answer_chunks R)"
    using new unfolding run r l' by simp
  have f: "fst (app2_handle_text_message cfg env tr ev) = None"
    unfolding run r by simp
  have "filter is_reply (delivery_plan ev (c0 # rest)) = [ReplyMessage (reply_token ev) (Some c0) None]"
       "filter is_push (delivery_plan ev (c0 # rest)) = map (\<lambda>c. PushMessage (user_id ev) c None) rest"
    by (simp_all add: delivery_plan_def filter_map comp_def)
  then show ?thesis using e f unfolding cs by simp
qed

theorem app2_delivery_follows_plan_witness:
  "app2_obtain_response sample_config (env_ok (replicate 9000 97)) [] sample_event
     = (Continue (Some (replicate 9000 97)), sample_prefix (replicate 9000 97))
   \<and> map failure (emitted (sample_prefix (replicate 9000 97))
        (app2_handle_text_message sample_config (env_ok (replicate 9000 97)) [] sample_event))
      = [None, None, None]
   \<and> emitted (sample_prefix (replicate 9000 97))
        (app2_handle_text_message sample_config (env_ok (replicate 9000 97)) [] sample_event)
      = [ReplyMessage [116] (Some (replicate 4000 97)) None, PushMessage [85] (replicate 4000 97) None,
         PushMessage [85] (replicate 1000 97) None]"
proof -
  have h1: "app2_obtain_response sample_config (env_ok (replicate 9000 97)) [] sample_event
     = (Continue (Some (replicate 9000 97)), sample_prefix (replicate 9000 97))"
    by (simp add: app2_defs sample_defs)
  have h2: "\<forall>x \<in> set (emitted (sample_prefix (replicate 9000 97))
        (app2_handle_text_message sample_config (env_ok (replicate 9000 97)) [] sample_event)).
         failure x = None"
    by (simp add: app2_defs sample_defs chunks_of_9000)
  show ?thesis
    using h1 h2 app2_delivery_follows_plan [OF h1 h2]
    by (simp add: answer_chunks_def chunks_of_9000 delivery_plan_def sample_event_def)
qed

text \<open>
  Claim C3 as stated fails when a delivery call raises: with three chunks and a push that
  raises, chunk 2 is never pushed, and the calls after the inference are one reply, one
  push and the error reply of the \<open>except\<close> clause.
\<close>

theorem app2_failed_push_stops_delivery:
  "app2_obtain_response sample_config (env_push_fails (replicate 9000 97)) [] sample_event
     = (Continue (Some (replicate 9000 97)), sample_prefix (replicate 9000 97))
   \<and> answer_chunks (replicate 9000 97) = [replicate 4000 97, replicate 4000 97, replicate 1000 97]
   \<and> app2_handle_text_message sample_config (env_push_fails (replicate 9000 97)) [] sample_event
      = (Some sample_exn,
         sample_prefix (replicate 9000 97) @
         [ReplyMessage [116] (Some (replicate 4000 97)) None,
          PushMessage [85] (replicate 4000 97) (Some sample_exn),
          ReplyMessage [116] (Some (REQUEST_ERROR_PREFIX @ str sample_exn)) (Some sample_exn)])"
  by (simp add: app2_defs sample_defs chunks_of_9000 chunk_is_not_ack answer_chunks_def)

section \<open>Claims about the order of the calls and the failures of a download\<close>

text \<open>
  Claim C8. In the multi-document program the first call of every handled text message
  is the push of the acknowledgment text, whatever happens later: no download precedes it,
  and it is in the trace also when a download raises afterwards.
\<close>

theorem app2_ack_before_fetch:
  "\<exists>r rest. emitted tr (app2_handle_text_message cfg env tr ev)
      = PushMessage (user_id ev) PROCESSING_MSG r # rest"
proof -
  obtain F l where ob: "app2_obtain_response cfg env tr ev = (F, l)" by force
  from app2_handle_cases [OF ob] obtain tail where
    tail: "snd (app2_handle_text_message cfg env tr ev) = l @ tail" by blast
  from app2_obtain_response_cases [OF ob]
  have "\<exists>r rest. l = tr @ PushMessage (user_id ev) PROCESSING_MSG r # rest"
    by auto
  then show ?thesis unfolding emitted_def tail by auto
qed

theorem app2_ack_before_fetch_witness:
  "emitted [] (app2_handle_text_message sample_config env_fetch_fails [] sample_event)
     = [PushMessage [85] PROCESSING_MSG None,
        GetMedia (Some [49]) (Inr [37]),
        GetMedia (Some [50]) (Inl sample_exn),
        ReplyMessage [116] (Some (REQUEST_ERROR_PREFIX @ str sample_exn)) None]"
  using app2_ack_before_fetch [of "[]" sample_config env_fetch_fails sample_event]
  by (simp add: app2_defs sample_defs)

text \<open>
  Claim C9, as amended. In the multi-document program, when the three downloads return and
  one of the three documents has zero bytes, the handler replies the fixed text about an
  empty PDF right after the downloads and makes no inference call. It returns at once when
  this reply returns. When this reply raises \<open>e\<close>, the \<open>except\<close> clause issues one more
  call, the error reply with the prefix and \<open>str(e)\<close>, and the outcome of the handler is
  the outcome of that error reply.
\<close>

theorem app2_empty_pdf_reply:
  assumes "filter is_fetch (emitted tr (app2_handle_text_message cfg env tr ev))
             = [GetMedia f1 (Inr d1), GetMedia f2 (Inr d2), GetMedia f3 (Inr d3)]"
    and "length d1 = 0 \<or> length d2 = 0 \<or> length d3 = 0"
  shows "\<exists>r rest. emitted tr (app2_handle_text_message cfg env tr ev)
            = [PushMessage (user_id ev) PROCESSING_MSG None,
               GetMedia f1 (Inr d1), GetMedia f2 (Inr d2), GetMedia f3 (Inr d3),
               ReplyMessage (reply_token ev) (Some EMPTY_PDF_MSG) r] @ rest
          \<and> (case r of
                None \<Rightarrow> rest = [] \<and> fst (app2_handle_text_message cfg env tr ev) = None
              | Some e \<Rightarrow> rest = [ReplyMessage (reply_token ev) (Some (REQUEST_ERROR_PREFIX @ str e))
                                     (fst (app2_handle_text_message cfg env tr ev))])
          \<and> \<not> list_ex is_inference (emitted tr (app2_handle_text_message cfg env tr ev))"
proof -
  obtain F l where ob: "app2_obtain_response cfg env tr ev = (F, l)" by force
  from app2_handle_cases [OF ob] obtain tail where
    tail: "snd (app2_handle_text_message cfg env tr ev) = l @ tail"
      "list_all (\<lambda>x. is_reply x \<or> is_push x) tail"
      "case F of
          Returned \<Rightarrow> tail = [] \<and> fst (app2_handle_text_message cfg env tr ev) = None
        | Raised e \<Rightarrow> tail = [ReplyMessage (reply_token ev) (Some (REQUEST_ERROR_PREFIX @ str e))
                                 (fst (app2_handle_text_message cfg env tr ev))]
        | Continue R \<Rightarrow> True"
    by blast
  have nofetch: "filter is_fetch tail = []"
    using tail(2) by (auto simp: list_all_iff filter_empty_conv dest: fetch_is_not_other)
  have inf: "filter is_fetch inf = []" if "list_all is_inference inf" for inf
    using that by (auto simp: list_all_iff filter_empty_conv dest: fetch_is_not_other)
  from app2_obtain_response_cases [OF ob] assms tail(3) nofetch inf
  show ?thesis
    unfolding emitted_def tail(1)
    by (elim disjE exE conjE) (auto split: option.splits)
qed


theorem app2_empty_pdf_reply_witness:
  "filter is_fetch (emitted [] (app2_handle_text_message sample_config env_empty_pdf [] sample_event))
     = [GetMedia (Some [49]) (Inr [37]), GetMedia (Some [50]) (Inr []), GetMedia (Some [51]) (Inr [37])]
   \<and> length ([] :: bytes) = 0
   \<and> app2_handle_text_message sample_config env_empty_pdf [] sample_event
     = (None,
        [PushMessage [85] PROCESSING_MSG None,
         GetMedia (Some [49]) (Inr [37]), GetMedia (Some [50]) (Inr []),
         GetMedia (Some [51]) (Inr [37]),
         ReplyMessage [116] (Some EMPTY_PDF_MSG) None])
   \<and> app2_handle_text_message sample_config env_empty_pdf_first_reply_fails [] sample_event
     = (None,
        [PushMessage [85] PROCESSING_MSG None,
         GetMedia (Some [49]) (Inr [37]), GetMedia (Some [50]) (Inr []),
         GetMedia (Some [51]) (Inr [37]),
         ReplyMessage [116] (Some EMPTY_PDF_MSG) (Some sample_exn),
         ReplyMessage [116] (Some (REQUEST_ERROR_PREFIX @ str sample_exn)) None])"
proof -
  have h1: "filter is_fetch (emitted [] (app2_handle_text_message sample_config env_empty_pdf [] sample_event))
     = [GetMedia (Some [49]) (Inr [37]), GetMedia (Some [50]) (Inr []), GetMedia (Some [51]) (Inr [37])]"
    by (simp add: app2_defs sample_defs)
  have h1': "filter is_fetch (emitted [] (app2_handle_text_message sample_config
        env_empty_pdf_first_reply_fails [] sample_event))
     = [GetMedia (Some [49]) (Inr [37]), GetMedia (Some [50]) (Inr []), GetMedia (Some [51]) (Inr [37])]"
    by (simp add: app2_defs sample_defs)
  have h2: "length [37 :: 8 word] = 0 \<or> length ([] :: bytes) = 0 \<or> length [37 :: 8 word] = 0"
    by simp
  show ?thesis
    using h1 app2_empty_pdf_reply [OF h1 h2] app2_empty_pdf_reply [OF h1' h2]
    by (simp add: app2_defs sample_defs)
qed

text \<open>
  Claim C9 as stated fails when the reply of the empty-PDF text raises: the handler does
  not return at once, the \<open>except\<close> clause sends a second reply, and when that one raises
  too the handler raises.
\<close>

theorem app2_empty_pdf_reply_raises:
  "app2_handle_text_message sample_config env_empty_pdf_reply_fails [] sample_event
     = (Some sample_exn,
        [PushMessage [85] PROCESSING_MSG None,
         GetMedia (Some [49]) (Inr [37]), GetMedia (Some [50]) (Inr []),
         GetMedia (Some [51]) (Inr [37]),
         ReplyMessage [116] (Some EMPTY_PDF_MSG) (Some sample_exn),
         ReplyMessage [116] (Some (REQUEST_ERROR_PREFIX @ str sample_exn)) (Some sample_exn)])"
  by (simp add: app2_defs sample_defs)

text \<open>
  Claim C5. When a document download raises \<open>e\<close>, the handler issues exactly one reply,
  whose text is the error prefix followed by \<open>str(e)\<close>, and no inference call is made in
  the request. This holds in both programs.
\<close>

theorem fetch_error_single_reply:
  "(GetMedia f (Inl e) \<in> set (emitted tr (app2_handle_text_message cfg env tr ev)) \<longrightarrow>
      filter is_reply (emitted tr (app2_handle_text_message cfg env tr ev))
        = [ReplyMessage (reply_token ev) (Some (REQUEST_ERROR_PREFIX @ str e))
             (fst (app2_handle_text_message cfg env tr ev))]
      \<and> \<not> list_ex is_inference (emitted tr (app2_handle_text_message cfg env tr ev)))
   \<and> (GetMedia f (Inl e) \<in> set (emitted tr (app_handle_text_message pdf_id env tr ev)) \<longrightarrow>
      filter is_reply (emitted tr (app_handle_text_message pdf_id env tr ev))
        = [ReplyMessage (reply_token ev) (Some (REQUEST_ERROR_PREFIX @ str e))
             (fst (app_handle_text_message pdf_id env tr ev))]
      \<and> \<not> list_ex is_inference (emitted tr (app_handle_text_message pdf_id env tr ev)))"
proof (intro conjI impI)
  assume a: "GetMedia f (Inl e) \<in> set (emitted tr (app2_handle_text_message cfg env tr ev))"
  obtain F l where ob: "app2_obtain_response cfg env tr ev = (F, l)" by force
  from app2_handle_cases [OF ob] obtain tail where
    tail: "snd (app2_handle_text_message cfg env tr ev) = l @ tail"
      "list_all (\<lambda>x. is_reply x \<or> is_push x) tail"
      "case F of
          Returned \<Rightarrow> tail = [] \<and> fst (app2_handle_text_message cfg env tr ev) = None
        | Raised e \<Rightarrow> tail = [ReplyMessage (reply_token ev) (Some (REQUEST_ERROR_PREFIX @ str e))
                                 (fst (app2_handle_text_message cfg env tr ev))]
        | Continue R \<Rightarrow> True"
    by blast
  have nofetch: "GetMedia f (Inl e) \<notin> set tail"
    using tail(2) by (auto simp: list_all_iff)
  have inf: "GetMedia f (Inl e) \<notin> set inf" if "list_all is_inference inf" for inf
    using that by (auto simp: list_all_iff)
  from app2_obtain_response_cases [OF ob] a tail(3) nofetch inf
  have "filter is_reply (emitted tr (app2_handle_text_message cfg env tr ev))
        = [ReplyMessage (reply_token ev) (Some (REQUEST_ERROR_PREFIX @ str e))
             (fst (app2_handle_text_message cfg env tr ev))]
      \<and> \<not> list_ex is_inference (emitted tr (app2_handle_text_message cfg env tr ev))"
    unfolding emitted_def tail(1)
    by (elim disjE exE conjE) (auto split: option.splits)
  then show "filter is_reply (emitted tr (app2_handle_text_message cfg env tr ev))
        = [ReplyMessage (reply_token ev) (Some (REQUEST_ERROR_PREFIX @ str e))
             (fst (app2_handle_text_message cfg env tr ev))]"
    and "\<not> list_ex is_inference (emitted tr (app2_handle_text_message cfg env tr ev))"
    by simp_all
next
  assume a: "GetMedia f (Inl e) \<in> set (emitted tr (app_handle_text_message pdf_id env tr ev))"
  obtain F l where ob: "app_obtain_response pdf_id env tr ev = (F, l)" by force
  from app_handle_cases [OF ob] obtain tail where
    tail: "snd (app_handle_text_message pdf_id env tr ev) = l @ tail"
      "list_all is_reply tail"
      "case F of
          Returned \<Rightarrow> tail = [] \<and> fst (app_handle_text_message pdf_id env tr ev) = None
        | Raised e \<Rightarrow> tail = [ReplyMessage (reply_token ev) (Some (REQUEST_ERROR_PREFIX @ str e))
                                 (fst (app_handle_text_message pdf_id env tr ev))]
        | Continue R \<Rightarrow> True"
    by blast
  have nofetch: "GetMedia f (Inl e) \<notin> set tail"
    using tail(2) by (auto simp: list_all_iff)
  have inf: "GetMedia f (Inl e) \<notin> set inf" if "list_all is_inference inf" for inf
    using that by (auto simp: list_all_iff)
  from app_obtain_response_cases [OF ob] a tail(3) nofetch inf
  have "filter is_reply (emitted tr (app_handle_text_message pdf_id env tr ev))
        = [ReplyMessage (reply_token ev) (Some (REQUEST_ERROR_PREFIX @ str e))
             (fst (app_handle_text_message pdf_id env tr ev))]
      \<and> \<not> list_ex is_inference (emitted tr (app_handle_text_message pdf_id env tr ev))"
    unfolding emitted_def tail(1)
    by (elim disjE exE conjE) (auto split: option.splits)
  then show "filter is_reply (emitted tr (app_handle_text_message pdf_id env tr ev))
        = [ReplyMessage (reply_token ev) (Some (REQUEST_ERROR_PREFIX @ str e))
             (fst (app_handle_text_message pdf_id env tr ev))]"
    and "\<not> list_ex is_inference (emitted tr (app_handle_text_message pdf_id env tr ev))"
    by simp_all
qed

theorem fetch_error_single_reply_witness:
  "GetMedia (Some [50]) (Inl sample_exn)
      \<in> set (emitted [] (app2_handle_text_message sample_config env_fetch_fails [] sample_event))
   \<and> filter is_reply (emitted [] (app2_handle_text_message sample_config env_fetch_fails [] sample_event))
      = [ReplyMessage [116] (Some (REQUEST_ERROR_PREFIX @ [98, 111, 111, 109])) None]
   \<and> \<not> list_ex is_inference (emitted [] (app2_handle_text_message sample_config env_fetch_fails [] sample_event))
   \<and> GetMedia (Some [50]) (Inl sample_exn)
      \<in> set (emitted [] (app_handle_text_message (Some [50]) env_fetch_fails [] sample_event))
   \<and> filter is_reply (emitted [] (app_handle_text_message (Some [50]) env_fetch_fails [] sample_event))
      = [ReplyMessage [116] (Some (REQUEST_ERROR_PREFIX @ [98, 111, 111, 109])) None]"
proof -
  have h1: "GetMedia (Some [50]) (Inl sample_exn)
      \<in> set (emitted [] (app2_handle_text_message sample_config env_fetch_fails [] sample_event))"
    by (simp add: app2_defs sample_defs)
  have h2: "GetMedia (Some [50]) (Inl sample_exn)
      \<in> set (emitted [] (app_handle_text_message (Some [50]) env_fetch_fails [] sample_event))"
    by (simp add: app_defs sample_defs)
  show ?thesis
    using h1 h2
      fetch_error_single_reply [of "Some [50]" sample_exn "[]" sample_config env_fetch_fails
        sample_event "Some [50]"]
    by (simp add: app2_defs app_defs sample_defs)
qed

section \<open>Claims about the single-document delivery and about timeouts\<close>

text \<open>
  Claim C10. The single-document handler delivers the whole result of the inference in
  one reply, whatever its length: after the inference the trace holds the reply of the
  result alone (or, when that reply raises, this reply and the error reply of the
  \<open>except\<close> clause), and never a push.
\<close>

theorem app_whole_answer_one_reply:
  assumes "app_obtain_response pdf_id env tr ev = (Continue (Some R), l1)"
  shows "\<not> list_ex is_push (emitted l1 (app_handle_text_message pdf_id env tr ev)) \<and>
       ((emitted l1 (app_handle_text_message pdf_id env tr ev) = [ReplyMessage (reply_token ev) (Some R) None]
          \<and> fst (app_handle_text_message pdf_id env tr ev) = None)
       \<or> (\<exists>e r. emitted l1 (app_handle_text_message pdf_id env tr ev) =
              [ReplyMessage (reply_token ev) (Some R) (Some e),
               ReplyMessage (reply_token ev) (Some (REQUEST_ERROR_PREFIX @ str e)) r]
          \<and> fst (app_handle_text_message pdf_id env tr ev) = r))"
proof (cases "reply_message env l1 (reply_token ev) (Some R)")
  case None
  then show ?thesis
    by (simp add: app_handle_after_response [OF assms] call_defs)
next
  case (Some e)
  then show ?thesis
    by (simp add: app_handle_after_response [OF assms] call_defs reply_error_eq)
qed

theorem app_whole_answer_one_reply_witness:
  "app_obtain_response (Some [49]) (env_ok (replicate 9000 97)) [] sample_event
     = (Continue (Some (replicate 9000 97)), app_sample_prefix (replicate 9000 97))
   \<and> emitted (app_sample_prefix (replicate 9000 97))
        (app_handle_text_message (Some [49]) (env_ok (replicate 9000 97)) [] sample_event)
      = [ReplyMessage [116] (Some (replicate 9000 97)) None]"
proof -
  have h1: "app_obtain_response (Some [49]) (env_ok (replicate 9000 97)) [] sample_event
     = (Continue (Some (replicate 9000 97)), app_sample_prefix (replicate 9000 97))"
    by (simp add: app_defs sample_defs)
  show ?thesis
    using h1 app_whole_answer_one_reply [OF h1]
    by (simp add: app_defs sample_defs)
qed

text \<open>
  Claim C6, as amended. In the multi-document program a timeout of the model call
  \<open>client.models.generate_content\<close> makes \<open>process_with_gemini\<close> return the fixed timeout
  text, which the handler then replies as the answer. Every other exception of the
  inference step is turned into the error prefix followed by \<open>str(e)\<close>: in the
  multi-document program an exception (a timeout too) of \<open>genai.Client\<close> or of
  \<open>client.files.upload\<close>, which are outside the inner \<open>try\<close>, and an exception of the
  model call that is not a timeout; in the single-document program, which has no clause
  for timeouts, every exception of \<open>genai.Client\<close> or of the model call. In both programs
  the function returns and raises nothing.
\<close>

theorem timeout_answer:
  "(GenerateContent m cs (Inl e) \<in> set (emitted tr (app2_process_with_gemini env tr d1 d2 d3 q))
      \<and> class_of e = TimeoutException
    \<longrightarrow> fst (app2_process_with_gemini env tr d1 d2 d3 q) = Some TIMEOUT_MSG)
   \<and> (GenerateContent m cs (Inl e) \<in> set (emitted tr (app2_handle_text_message cfg env tr ev))
      \<and> class_of e = TimeoutException
    \<longrightarrow> (\<exists>r. ReplyMessage (reply_token ev) (Some TIMEOUT_MSG) r
              \<in> set (emitted tr (app2_handle_text_message cfg env tr ev))))
   \<and> (GenaiClient (Some e) \<in> set (emitted tr (app2_process_with_gemini env tr d1 d2 d3 q))
      \<or> FilesUpload pdf mime (Inl e) \<in> set (emitted tr (app2_process_with_gemini env tr d1 d2 d3 q))
      \<or> GenerateContent m cs (Inl e) \<in> set (emitted tr (app2_process_with_gemini env tr d1 d2 d3 q))
        \<and> class_of e \<noteq> TimeoutException
    \<longrightarrow> fst (app2_process_with_gemini env tr d1 d2 d3 q) = Some (QUERY_ERROR_PREFIX @ str e))
   \<and> (GenaiClient (Some e) \<in> set (emitted tr (app_process_with_gemini env tr d q))
      \<or> GenerateContent m cs (Inl e) \<in> set (emitted tr (app_process_with_gemini env tr d q))
    \<longrightarrow> fst (app_process_with_gemini env tr d q) = Some (QUERY_ERROR_PREFIX @ str e))"
proof (intro conjI impI)
  assume "GenerateContent m cs (Inl e) \<in> set (emitted tr (app2_process_with_gemini env tr d1 d2 d3 q))
      \<and> class_of e = TimeoutException"
  then show "fst (app2_process_with_gemini env tr d1 d2 d3 q) = Some TIMEOUT_MSG"
    unfolding app2_process_with_gemini_def call_defs emitted_def
    by (auto split: option.splits sum.splits if_splits)
next
  assume "GenaiClient (Some e) \<in> set (emitted tr (app2_process_with_gemini env tr d1 d2 d3 q))
      \<or> FilesUpload pdf mime (Inl e) \<in> set (emitted tr (app2_process_with_gemini env tr d1 d2 d3 q))
      \<or> GenerateContent m cs (Inl e) \<in> set (emitted tr (app2_process_with_gemini env tr d1 d2 d3 q))
        \<and> class_of e \<noteq> TimeoutException"
  then show "fst (app2_process_with_gemini env tr d1 d2 d3 q) = Some (QUERY_ERROR_PREFIX @ str e)"
    unfolding app2_process_with_gemini_def call_defs emitted_def
    by (auto split: option.splits sum.splits if_splits)
next
  assume "GenaiClient (Some e) \<in> set (emitted tr (app_process_with_gemini env tr d q))
      \<or> GenerateContent m cs (Inl e) \<in> set (emitted tr (app_process_with_gemini env tr d q))"
  then show "fst (app_process_with_gemini env tr d q) = Some (QUERY_ERROR_PREFIX @ str e)"
    unfolding app_process_with_gemini_def call_defs emitted_def
    by (auto split: option.splits sum.splits if_splits)
next
  assume a: "GenerateContent m cs (Inl e) \<in> set (emitted tr (app2_handle_text_message cfg env tr ev))
      \<and> class_of e = TimeoutException"
  obtain F l where ob: "app2_obtain_response cfg env tr ev = (F, l)" by force
  from app2_handle_cases [OF ob] obtain tail where
    tail: "snd (app2_handle_text_message cfg env tr ev) = l @ tail"
      "list_all (\<lambda>x. is_reply x \<or> is_push x) tail"
    by blast
  have ext: "\<exists>new. l = tr @ new"
    using app2_obtain_response_cases [OF ob] by auto
  have "GenerateContent m cs (Inl e) \<notin> set tail"
    using tail(2) by (auto simp: list_all_iff)
  then have "GenerateContent m cs (Inl e) \<in> set (drop (length tr) l)"
    using a ext unfolding emitted_def tail(1) by auto
  from app2_obtain_response_timeout [OF ob this] a
  have F: "app2_obtain_response cfg env tr ev = (Continue (Some TIMEOUT_MSG), l)"
    using ob by simp
  obtain new where l: "l = tr @ new" using ext by blast
  show "\<exists>r. ReplyMessage (reply_token ev) (Some TIMEOUT_MSG) r
              \<in> set (emitted tr (app2_handle_text_message cfg env tr ev))"
    unfolding app2_handle_after_response [OF F] emitted_def
    using timeout_msg_short
    by (cases "reply_message env l (reply_token ev) (Some TIMEOUT_MSG)")
       (auto simp: app2_send_response_def call_defs reply_error_eq l)
qed

theorem timeout_answer_witness:
  "GenerateContent GEMINI_MODEL
      [UploadedFile 1, UploadedFile 1, UploadedFile 1, QueryText [63]] (Inl sample_timeout)
      \<in> set (emitted [] (app2_handle_text_message sample_config env_timeout [] sample_event))
   \<and> class_of sample_timeout = TimeoutException
   \<and> fst (app2_process_with_gemini env_timeout [] [37] [37] [37] [63]) = Some TIMEOUT_MSG
   \<and> ReplyMessage [116] (Some TIMEOUT_MSG) None
      \<in> set (emitted [] (app2_handle_text_message sample_config env_timeout [] sample_event))
   \<and> FilesUpload [37] PDF_MIME (Inl sample_timeout)
      \<in> set (emitted [] (app2_process_with_gemini env_upload_timeout [] [37] [37] [37] [63]))
   \<and> fst (app2_process_with_gemini env_upload_timeout [] [37] [37] [37] [63])
      = Some (QUERY_ERROR_PREFIX @ [116, 105, 109, 101, 100, 32, 111, 117, 116])
   \<and> fst (app_process_with_gemini env_timeout [] [37] [63])
      = Some (QUERY_ERROR_PREFIX @ [116, 105, 109, 101, 100, 32, 111, 117, 116])"
proof -
  have len: "\<not> 5000 < length TIMEOUT_MSG" by (simp add: TIMEOUT_MSG_def)
  have h1: "GenerateContent GEMINI_MODEL
      [UploadedFile 1, UploadedFile 1, UploadedFile 1, QueryText [63]] (Inl sample_timeout)
      \<in> set (emitted [] (app2_handle_text_message sample_config env_timeout [] sample_event))"
    by (simp add: app2_defs sample_defs len)
  have h2: "class_of sample_timeout = TimeoutException" by (simp add: sample_timeout_def)
  have h3: "FilesUpload [37] PDF_MIME (Inl sample_timeout)
      \<in> set (emitted [] (app2_process_with_gemini env_upload_timeout [] [37] [37] [37] [63]))"
    by (simp add: app2_defs sample_defs)
  show ?thesis
    using h1 h2 h3
      timeout_answer [where m = GEMINI_MODEL
        and cs = "[UploadedFile 1, UploadedFile 1, UploadedFile 1, QueryText [63]]"
        and e = sample_timeout and tr = "[]" and env = env_timeout
        and ?d1.0 = "[37]" and ?d2.0 = "[37]" and ?d3.0 = "[37]" and q = "[63]"
        and cfg = sample_config and ev = sample_event and d = "[37]"]
      timeout_answer [where e = sample_timeout and tr = "[]" and env = env_upload_timeout
        and ?d1.0 = "[37]" and ?d2.0 = "[37]" and ?d3.0 = "[37]" and q = "[63]"
        and pdf = "[37]" and mime = PDF_MIME]
    by (simp add: app2_defs app_defs sample_defs len)
qed

text \<open>
  Claim C6 as stated fails for two timeouts of the inference step: in the single-document
  program a timeout of the model call, and in the multi-document program a timeout of an
  upload, make \<open>process_with_gemini\<close> return the prefix with the text of the exception,
  not the fixed timeout text.
\<close>

theorem timeout_not_fixed_message:
  "class_of sample_timeout = TimeoutException
   \<and> app_process_with_gemini env_timeout [] [37] [63]
      = (Some (QUERY_ERROR_PREFIX @ str sample_timeout),
         [GenaiClient None,
          GenerateContent GEMINI_MODEL [PartFromBytes [37] PDF_MIME, QueryText [63]]
            (Inl sample_timeout)])
   \<and> app2_process_with_gemini env_upload_timeout [] [37] [37] [37] [63]
      = (Some (QUERY_ERROR_PREFIX @ str sample_timeout),
         [GenaiClient None, FilesUpload [37] PDF_MIME (Inl sample_timeout)])
   \<and> QUERY_ERROR_PREFIX @ str sample_timeout \<noteq> TIMEOUT_MSG"
  by (simp add: app_defs app2_defs sample_defs QUERY_ERROR_PREFIX_def TIMEOUT_MSG_def)

section \<open>Claims about exceptions and the webhook response\<close>







end
